theory Spec2Isabelle
  imports Complex_Main "HOL-Library.Sublist"
begin

section \<open>Query keys\<close>

text \<open>
  The hooks module addresses every cached query by an array key. The factory
  \<^verbatim>\<open>queryKeys\<close> builds arrays of strings; the two list hooks append the search-params
  object (or \<^verbatim>\<open>undefined\<close>) as one more element. A key segment is therefore a string or
  an optional search-params object. A search-params object is the list of its entries;
  a field holds a string, a boolean, a number (a finite one as its rational value, zero
  unsigned), \<^verbatim>\<open>null\<close> or \<^verbatim>\<open>undefined\<close>. A string is the list of the bytes of its
  UTF-8 text.
\<close>

datatype js_number = Finite rat | PosInfinity | NegInfinity | NotANumber

datatype param_value = Undefined | Null | StrV string | NumV js_number | BoolV bool

type_synonym search_params = "(string \<times> param_value) list"

datatype segment = S string | P "search_params option"

type_synonym query_key = "segment list"

definition user_profile :: query_key where
  "user_profile = [S ''user'', S ''profile'']"

definition organization_list :: query_key where
  "organization_list = [S ''organizations'']"

definition organization_detail :: "string \<Rightarrow> query_key" where
  "organization_detail i = [S ''organizations'', S i]"

definition organization_members :: "string \<Rightarrow> query_key" where
  "organization_members i = [S ''organizations'', S i, S ''members'']"

definition organization_usage :: "string \<Rightarrow> query_key" where
  "organization_usage i = [S ''organizations'', S i, S ''usage'']"

definition style_list :: "string \<Rightarrow> query_key" where
  "style_list orgId = [S ''organizations'', S orgId, S ''styles'']"

definition style_detail :: "string \<Rightarrow> string \<Rightarrow> query_key" where
  "style_detail orgId i = [S ''organizations'', S orgId, S ''styles'', S i]"

definition style_analysis :: "string \<Rightarrow> string \<Rightarrow> query_key" where
  "style_analysis orgId i = [S ''organizations'', S orgId, S ''styles'', S i, S ''analysis'']"

definition content_list :: "string \<Rightarrow> query_key" where
  "content_list orgId = [S ''organizations'', S orgId, S ''content'']"

definition content_detail :: "string \<Rightarrow> string \<Rightarrow> query_key" where
  "content_detail orgId i = [S ''organizations'', S orgId, S ''content'', S i]"

definition content_iterations :: "string \<Rightarrow> string \<Rightarrow> query_key" where
  "content_iterations orgId i =
     [S ''organizations'', S orgId, S ''content'', S i, S ''iterations'']"

text \<open>The keys under which \<^verbatim>\<open>useStyles\<close> and \<^verbatim>\<open>useContent\<close> cache a list page.\<close>

definition useStyles_key :: "string \<Rightarrow> search_params option \<Rightarrow> query_key" where
  "useStyles_key organizationId searchParams = style_list organizationId @ [P searchParams]"

definition useContent_key :: "string \<Rightarrow> search_params option \<Rightarrow> query_key" where
  "useContent_key organizationId searchParams = content_list organizationId @ [P searchParams]"

text \<open>A key carries an organization id when it starts with the segment
  \<^verbatim>\<open>'organizations'\<close> followed by a string.\<close>

fun org_of_key :: "query_key \<Rightarrow> string option" where
  "org_of_key (S a # S b # rest) = (if a = ''organizations'' then Some b else None)"
| "org_of_key k = None"

section \<open>The query cache\<close>

text \<open>
  The data-fetching library keeps one query object per key, holding the fetched data and
  the flag \<^verbatim>\<open>isInvalidated\<close>. \<^verbatim>\<open>invalidateQueries({ queryKey })\<close> sets the flag on
  every query whose key starts with the given key, and \<^verbatim>\<open>removeQueries({ queryKey })\<close>
  drops every such query: the filter matches partially, element by element. All filters
  of the hooks module are arrays of strings, for which the element comparison is equality.
\<close>

record 'd query =
  queryKey :: query_key
  data :: 'd
  isInvalidated :: bool

type_synonym 'd query_cache = "'d query list"

definition partialMatchKey :: "query_key \<Rightarrow> query_key \<Rightarrow> bool" where
  "partialMatchKey a b = prefix b a"

definition invalidateQueries :: "query_key \<Rightarrow> 'd query_cache \<Rightarrow> 'd query_cache" where
  "invalidateQueries k cache =
     map (\<lambda>q. if partialMatchKey (queryKey q) k then q\<lparr>isInvalidated := True\<rparr> else q) cache"

definition removeQueries :: "query_key \<Rightarrow> 'd query_cache \<Rightarrow> 'd query_cache" where
  "removeQueries k cache = filter (\<lambda>q. \<not> partialMatchKey (queryKey q) k) cache"

text \<open>The filters that the hooks module passes are arrays of strings.\<close>

definition strings_only :: "query_key \<Rightarrow> bool" where
  "strings_only f = list_all (\<lambda>x. case x of S s \<Rightarrow> True | P p \<Rightarrow> False) f"

text \<open>
  The library finds the query of a key by the key's hash: the JSON text of the array,
  the fields of an object sorted by name. In JSON an \<^verbatim>\<open>undefined\<close> element of the array
  and a number that is not finite are written \<^verbatim>\<open>null\<close>, and a field whose value is
  \<^verbatim>\<open>undefined\<close> is left out. Two keys have the same text exactly when they agree
  element by element, two objects agreeing when they have the same fields with the same
  values once the \<^verbatim>\<open>undefined\<close> ones are left out. The hash is represented by
  what the text determines.
\<close>

datatype hashed_value = HNull | HStr string | HNum rat | HBool bool

fun hash_value :: "param_value \<Rightarrow> hashed_value option" where
  "hash_value Undefined = None"
| "hash_value Null = Some HNull"
| "hash_value (StrV s) = Some (HStr s)"
| "hash_value (NumV (Finite x)) = Some (HNum x)"
| "hash_value (NumV PosInfinity) = Some HNull"
| "hash_value (NumV NegInfinity) = Some HNull"
| "hash_value (NumV NotANumber) = Some HNull"
| "hash_value (BoolV b) = Some (HBool b)"

datatype hashed_segment = HS string | HN | HO "(string \<times> hashed_value) set"

fun hash_segment :: "segment \<Rightarrow> hashed_segment" where
  "hash_segment (S s) = HS s"
| "hash_segment (P None) = HN"
| "hash_segment (P (Some entries)) =
     HO (set (List.map_filter (\<lambda>(key, v). map_option (Pair key) (hash_value v)) entries))"

definition hashKey :: "query_key \<Rightarrow> hashed_segment list" where
  "hashKey k = map hash_segment k"

text \<open>A read of key \<open>k\<close> finds the query whose key has the hash of \<open>k\<close>; it is served
  from the cache without a refetch when that query is not invalidated.\<close>

definition getQuery :: "'d query_cache \<Rightarrow> query_key \<Rightarrow> 'd query option" where
  "getQuery cache k = find (\<lambda>q. hashKey (queryKey q) = hashKey k) cache"

definition fresh :: "'d query_cache \<Rightarrow> query_key \<Rightarrow> bool" where
  "fresh cache k =
     list_ex (\<lambda>q. hashKey (queryKey q) = hashKey k \<and> \<not> isInvalidated q) cache"

definition stale :: "'d query_cache \<Rightarrow> query_key \<Rightarrow> bool" where
  "stale cache k =
     list_ex (\<lambda>q. hashKey (queryKey q) = hashKey k \<and> isInvalidated q) cache"

text \<open>The utility \<^verbatim>\<open>invalidateOrganization\<close> of the hooks module.\<close>

definition invalidateOrganization :: "string \<Rightarrow> 'd query_cache \<Rightarrow> 'd query_cache" where
  "invalidateOrganization organizationId cache =
     invalidateQueries [S ''organizations'', S organizationId] cache"

section \<open>Errors of the API client\<close>

text \<open>A rejected request carries an optional detail message and an optional HTTP
  status. An awaited request resolves with a value, rejects with an error, or never
  settles.\<close>

record api_error =
  detail :: "string option"
  status :: "int option"

datatype 'a promise = Pending | Rejected api_error | Resolved 'a

section \<open>Mutation hooks\<close>

text \<open>
  Each mutation hook passes \<^verbatim>\<open>{ mutationFn, onSuccess, ...options }\<close> to the library:
  an \<^verbatim>\<open>onSuccess\<close> among the caller's options replaces the hook's own. The option is
  modelled by its effect on the cache. The library runs \<^verbatim>\<open>onSuccess\<close> when the
  request resolves, and not when it rejects or while it is pending.
\<close>

type_synonym 'd on_success = "'d query_cache \<Rightarrow> 'd query_cache"

definition with_options :: "'d on_success \<Rightarrow> 'd on_success option \<Rightarrow> 'd on_success" where
  "with_options own options = (case options of None \<Rightarrow> own | Some f \<Rightarrow> f)"

definition useMutation ::
  "'d on_success \<Rightarrow> 'r promise \<Rightarrow> 'd query_cache \<Rightarrow> 'd query_cache" where
  "useMutation onSuccess outcome cache =
     (case outcome of
        Pending \<Rightarrow> cache
      | Rejected err \<Rightarrow> cache
      | Resolved res \<Rightarrow> onSuccess cache)"

definition useCreateStyle :: "string \<Rightarrow> 'd on_success option \<Rightarrow> 'd on_success" where
  "useCreateStyle organizationId options =
     with_options (\<lambda>cache. invalidateQueries (style_list organizationId) cache) options"

definition useUpdateStyle :: "string \<Rightarrow> string \<Rightarrow> 'd on_success option \<Rightarrow> 'd on_success" where
  "useUpdateStyle organizationId styleId options =
     with_options (\<lambda>cache.
        invalidateQueries (style_detail organizationId styleId)
          (invalidateQueries (style_list organizationId) cache)) options"

definition useDeleteStyle :: "string \<Rightarrow> string \<Rightarrow> 'd on_success option \<Rightarrow> 'd on_success" where
  "useDeleteStyle organizationId styleId options =
     with_options (\<lambda>cache.
        removeQueries (style_detail organizationId styleId)
          (invalidateQueries (style_list organizationId) cache)) options"

definition useGenerateContent :: "string \<Rightarrow> 'd on_success option \<Rightarrow> 'd on_success" where
  "useGenerateContent organizationId options =
     with_options (\<lambda>cache.
        invalidateQueries (organization_usage organizationId)
          (invalidateQueries (content_list organizationId) cache)) options"

section \<open>The authentication store\<close>

text \<open>
  The store holds the user, the active organization, two flags and an error message.
  Its actions call the authentication service, whose module is not part of the store:
  what each call returns is a parameter of the action, and the calls an action makes are
  recorded in order. The query cache lives in the query client, which no action of the
  store refers to; it is carried along so that its fate under an action can be stated.
\<close>

record Organization =
  org_id :: string
  org_name :: string
  org_slug :: string

record 'u AuthState =
  user :: "'u option"
  organization :: "Organization option"
  isAuthenticated :: bool
  isLoading :: bool
  error :: "string option"

datatype auth_call =
    Login string string
  | Logout
  | SetOrganizationData Organization
  | IsAuthenticated
  | IsTokenExpired
  | GetCurrentUser
  | GetOrganizationData
  | ClearAuthData

record 'u authService =
  login_result :: "('u \<times> Organization) promise"
  logout_result :: "unit promise"
  isAuthenticated_result :: bool
  isTokenExpired_result :: bool
  getCurrentUser_result :: "'u promise"
  getOrganizationData_result :: "Organization option"

record ('u, 'd) app =
  store :: "'u AuthState"
  calls :: "auth_call list"
  queries :: "'d query_cache"

definition set_store :: "('u AuthState \<Rightarrow> 'u AuthState) \<Rightarrow> ('u, 'd) app \<Rightarrow> ('u, 'd) app" where
  "set_store f w = w\<lparr>store := f (store w)\<rparr>"

definition call :: "auth_call \<Rightarrow> ('u, 'd) app \<Rightarrow> ('u, 'd) app" where
  "call c w = w\<lparr>calls := calls w @ [c]\<rparr>"

text \<open>The initial state of the store.\<close>

definition initial_state :: "'u AuthState" where
  "initial_state =
     \<lparr>user = None, organization = None, isAuthenticated = False, isLoading = False,
      error = None\<rparr>"

text \<open>The fallback message of a failed login, as the bytes of its UTF-8 text.\<close>

definition login_error_message :: string where
  "login_error_message =
     [CHR 0xD0, CHR 0x9E, CHR 0xD1, CHR 0x88, CHR 0xD0, CHR 0xB8, CHR 0xD0, CHR 0xB1,
      CHR 0xD0, CHR 0xBA, CHR 0xD0, CHR 0xB0, CHR 0x20, CHR 0xD0, CHR 0xB2, CHR 0xD1,
      CHR 0x85, CHR 0xD0, CHR 0xBE, CHR 0xD0, CHR 0xB4, CHR 0xD0, CHR 0xB0, CHR 0x20,
      CHR 0xD0, CHR 0xB2, CHR 0x20, CHR 0xD1, CHR 0x81, CHR 0xD0, CHR 0xB8, CHR 0xD1,
      CHR 0x81, CHR 0xD1, CHR 0x82, CHR 0xD0, CHR 0xB5, CHR 0xD0, CHR 0xBC, CHR 0xD1,
      CHR 0x83]"

text \<open>\<^verbatim>\<open>error.detail || message\<close>: an absent or empty detail gives the message.\<close>

definition or_message :: "string option \<Rightarrow> string \<Rightarrow> string" where
  "or_message d m = (case d of None \<Rightarrow> m | Some s \<Rightarrow> if s = [] then m else s)"

text \<open>
  An action is asynchronous: it returns the application as the action leaves it, and
  how the action ends. \<open>None\<close> says that it never ends, because the request it awaits
  never settles; \<^verbatim>\<open>login\<close> ends normally or by rethrowing the error of the request.
\<close>

definition login ::
  "'u authService \<Rightarrow> string \<Rightarrow> string \<Rightarrow> ('u, 'd) app
     \<Rightarrow> ('u, 'd) app \<times> (api_error + unit) option" where
  "login svc email password w =
     (let w1 = set_store (\<lambda>s. s\<lparr>isLoading := True, error := None\<rparr>) w;
          w2 = call (Login email password) w1
      in case login_result svc of
           Pending \<Rightarrow> (w2, None)
         | Resolved response \<Rightarrow>
             (set_store (\<lambda>s. s\<lparr>user := Some (fst response),
                                organization := Some (snd response),
                                isAuthenticated := True,
                                isLoading := False,
                                error := None\<rparr>) w2, Some (Inr ()))
         | Rejected err \<Rightarrow>
             (set_store (\<lambda>s. s\<lparr>isLoading := False,
                                error := Some (or_message (detail err) login_error_message)\<rparr>) w2,
              Some (Inl err)))"

text \<open>\<^verbatim>\<open>logout\<close>: the rejection of the service call is caught and logged; the
  \<^verbatim>\<open>finally\<close> block runs on both paths.\<close>

definition logout :: "'u authService \<Rightarrow> ('u, 'd) app \<Rightarrow> ('u, 'd) app \<times> unit option" where
  "logout svc w =
     (let w1 = set_store (\<lambda>s. s\<lparr>isLoading := True\<rparr>) w;
          w2 = call Logout w1;
          finally = (\<lambda>w3. set_store (\<lambda>s. s\<lparr>user := None, organization := None,
                                              isAuthenticated := False, isLoading := False,
                                              error := None\<rparr>) w3)
      in case logout_result svc of
           Pending \<Rightarrow> (w2, None)
         | Resolved u \<Rightarrow> (finally w2, Some ())
         | Rejected err \<Rightarrow> (finally w2, Some ()))"

definition setOrganization :: "Organization \<Rightarrow> ('u, 'd) app \<Rightarrow> ('u, 'd) app" where
  "setOrganization org w =
     call (SetOrganizationData org) (set_store (\<lambda>s. s\<lparr>organization := Some org\<rparr>) w)"

text \<open>The organization id that a component passes to the hooks:
  \<^verbatim>\<open>organization?.id || ''\<close>, with the organization of the store.\<close>

definition active_organization_id :: "('u, 'd) app \<Rightarrow> string" where
  "active_organization_id w =
     (case organization (store w) of None \<Rightarrow> [] | Some org \<Rightarrow> org_id org)"

text \<open>
  Modelled from the spec: \<^verbatim>\<open>authService.login\<close>, which keeps the token, is not among the
  sources. The spec says of login: ``on success, stores user + organization + token;
  on failure, surfaces an error without mutating prior state'', and of the token that
  it is ``written only by login/refresh/logout'' and that writers ``must fully replace
  it atomically''. The function gives the token stored after the call, from the outcome of the
  request, the token a successful answer carries, and the token stored before.
\<close>

definition authService_login :: "'r promise \<Rightarrow> string \<Rightarrow> string option \<Rightarrow> string option" where
  "authService_login outcome issued stored =
     (case outcome of
        Pending \<Rightarrow> stored
      | Rejected err \<Rightarrow> stored
      | Resolved response \<Rightarrow> Some issued)"

text \<open>The two places where \<^verbatim>\<open>initialize\<close> clears the session: the \<^verbatim>\<open>else\<close> branch and
  the \<^verbatim>\<open>catch\<close> block do the same.\<close>

definition clear_session :: "('u, 'd) app \<Rightarrow> ('u, 'd) app" where
  "clear_session w =
     set_store (\<lambda>s. s\<lparr>user := None, organization := None, isAuthenticated := False,
                        isLoading := False, error := None\<rparr>) (call ClearAuthData w)"

definition initialize :: "'u authService \<Rightarrow> ('u, 'd) app \<Rightarrow> ('u, 'd) app \<times> unit option" where
  "initialize svc w =
     (let w1 = set_store (\<lambda>s. s\<lparr>isLoading := True\<rparr>) w;
          w2 = call IsAuthenticated w1
      in if isAuthenticated_result svc then
           (let w3 = call IsTokenExpired w2
            in if \<not> isTokenExpired_result svc then
                 (let w4 = call GetCurrentUser w3
                  in case getCurrentUser_result svc of
                       Pending \<Rightarrow> (w4, None)
                     | Resolved u \<Rightarrow>
                         (set_store (\<lambda>s. s\<lparr>user := Some u,
                                             organization := getOrganizationData_result svc,
                                             isAuthenticated := True,
                                             isLoading := False,
                                             error := None\<rparr>) (call GetOrganizationData w4),
                          Some ())
                     | Rejected err \<Rightarrow> (clear_session w4, Some ()))
               else (clear_session w3, Some ()))
         else (clear_session w2, Some ()))"

section \<open>Retry policy\<close>

text \<open>The two \<^verbatim>\<open>retry\<close> callbacks of the query client. A missing \<^verbatim>\<open>status\<close> makes both
  comparisons false.\<close>

definition is_4xx :: "api_error \<Rightarrow> bool" where
  "is_4xx err = (case status err of None \<Rightarrow> False | Some st \<Rightarrow> 400 \<le> st \<and> st < 500)"

definition queries_retry :: "nat \<Rightarrow> api_error \<Rightarrow> bool" where
  "queries_retry failureCount err = (if is_4xx err then False else failureCount < 3)"

definition mutations_retry :: "nat \<Rightarrow> api_error \<Rightarrow> bool" where
  "mutations_retry failureCount err = (if is_4xx err then False else failureCount < 2)"

text \<open>
  The library's retry loop: \<^verbatim>\<open>failureCount\<close> starts at 0; when a request fails the
  callback is asked with the current count, and only if it agrees is the count
  incremented and the request sent again. The requests' outcomes are given in the order
  in which they are sent. The result is the number of requests sent and the final
  outcome (none when the given outcomes run out: the last request is left unanswered).
\<close>

fun retryer ::
  "(nat \<Rightarrow> api_error \<Rightarrow> bool) \<Rightarrow> nat \<Rightarrow> (api_error + 'r) list \<Rightarrow> nat \<times> (api_error + 'r) option" where
  "retryer retry failureCount [] = (1, None)"
| "retryer retry failureCount (Inr r # rest) = (1, Some (Inr r))"
| "retryer retry failureCount (Inl err # rest) =
     (if retry failureCount err
      then (case retryer retry (Suc failureCount) rest of (n, res) \<Rightarrow> (Suc n, res))
      else (1, Some (Inl err)))"

section \<open>Search parameters\<close>

text \<open>
  \<^verbatim>\<open>String(value)\<close> on the values a search-params object holds. An integer within the
  safe range is written with its decimal digits; how the platform writes any other
  finite number is the parameter \<open>num\<close>.
\<close>

fun digits :: "nat \<Rightarrow> string" where
  "digits n =
     (if n < 10 then [''0123456789'' ! n]
      else digits (n div 10) @ [''0123456789'' ! (n mod 10)])"

definition safe_integer :: "rat \<Rightarrow> bool" where
  "safe_integer x = (of_int \<lfloor>x\<rfloor> = x \<and> \<bar>x\<bar> \<le> 9007199254740991)"

fun String :: "(rat \<Rightarrow> string) \<Rightarrow> param_value \<Rightarrow> string" where
  "String num Undefined = ''undefined''"
| "String num Null = ''null''"
| "String num (StrV s) = s"
| "String num (NumV (Finite x)) =
     (if safe_integer x
      then (if x < 0 then CHR ''-'' # digits (nat (- \<lfloor>x\<rfloor>)) else digits (nat \<lfloor>x\<rfloor>))
      else num x)"
| "String num (NumV PosInfinity) = ''Infinity''"
| "String num (NumV NegInfinity) = ''-Infinity''"
| "String num (NumV NotANumber) = ''NaN''"
| "String num (BoolV b) = (if b then ''true'' else ''false'')"

text \<open>The loop over \<^verbatim>\<open>Object.entries(searchParams)\<close> that fills the
  \<^verbatim>\<open>URLSearchParams\<close>, the same in \<^verbatim>\<open>useStyles\<close> and \<^verbatim>\<open>useContent\<close>.\<close>

definition appendParams ::
  "(rat \<Rightarrow> string) \<Rightarrow> search_params option \<Rightarrow> (string \<times> string) list" where
  "appendParams num searchParams =
     (case searchParams of
        None \<Rightarrow> []
      | Some entries \<Rightarrow>
          map (\<lambda>(key, v). (key, String num v))
            (filter (\<lambda>(key, v). v \<noteq> Undefined \<and> v \<noteq> Null \<and> v \<noteq> StrV []) entries))"

text \<open>
  \<^verbatim>\<open>params.toString()\<close>, the form-urlencoded serializer of the platform: the pairs
  joined by \<^verbatim>\<open>&\<close>, each as \<^verbatim>\<open>name=value\<close>. In names and values the ASCII letters and
  digits and \<^verbatim>\<open>*-._\<close> stand for themselves, a space is written \<^verbatim>\<open>+\<close>, and every other
  byte is written \<^verbatim>\<open>%\<close> followed by its two upper-case hexadecimal digits.
\<close>

definition unreserved :: "char \<Rightarrow> bool" where
  "unreserved c =
     (c \<in> set ''ABCDEFGHIJKLMNOPQRSTUVWXYZabcdefghijklmnopqrstuvwxyz0123456789*-._'')"

definition hex_digit :: "nat \<Rightarrow> char" where
  "hex_digit n = ''0123456789ABCDEF'' ! n"

definition encode_byte :: "char \<Rightarrow> string" where
  "encode_byte c =
     (if unreserved c then [c]
      else if c = CHR '' '' then ''+''
      else [CHR ''%'', hex_digit (of_char c div 16), hex_digit (of_char c mod 16)])"

definition urlencode :: "string \<Rightarrow> string" where
  "urlencode s = concat (map encode_byte s)"

fun toString :: "(string \<times> string) list \<Rightarrow> string" where
  "toString [] = []"
| "toString [(k, v)] = urlencode k @ ''='' @ urlencode v"
| "toString ((k, v) # rest) = urlencode k @ ''='' @ urlencode v @ ''&'' @ toString rest"

text \<open>The URL requested by a list hook; \<open>endpoint\<close> is the list endpoint of the
  organization.\<close>

definition list_url :: "(rat \<Rightarrow> string) \<Rightarrow> string \<Rightarrow> search_params option \<Rightarrow> string" where
  "list_url num endpoint searchParams =
     (let params = appendParams num searchParams
      in endpoint @ (if toString params \<noteq> [] then ''?'' @ toString params else []))"

text \<open>
  The form-urlencoded parser, by which the receiver of a request reads the fields of a
  query string back: the string is cut at every \<^verbatim>\<open>&\<close>, empty pieces are dropped, each
  piece is cut at its first \<^verbatim>\<open>=\<close> into name and value, and in both a \<^verbatim>\<open>+\<close> is read as
  a space and \<^verbatim>\<open>%\<close> with two hexadecimal digits as the byte they denote.
\<close>

definition is_hex :: "char \<Rightarrow> bool" where
  "is_hex c = (c \<in> set ''0123456789ABCDEFabcdef'')"

definition hex_value :: "char \<Rightarrow> nat" where
  "hex_value c =
     (let n = of_char c
      in if 48 \<le> n \<and> n \<le> 57 then n - 48 else if 65 \<le> n \<and> n \<le> 70 then n - 55 else n - 87)"

fun urldecode :: "string \<Rightarrow> string" where
  "urldecode [] = []"
| "urldecode (c # cs) =
     (if c = CHR ''%'' \<and> 2 \<le> length cs \<and> is_hex (cs ! 0) \<and> is_hex (cs ! 1)
      then char_of (16 * hex_value (cs ! 0) + hex_value (cs ! 1)) # urldecode (drop 2 cs)
      else (if c = CHR ''+'' then CHR '' '' else c) # urldecode cs)"

fun split_on :: "char \<Rightarrow> string \<Rightarrow> string list" where
  "split_on sep [] = [[]]"
| "split_on sep (c # cs) =
     (if c = sep then [] # split_on sep cs
      else (case split_on sep cs of [] \<Rightarrow> [[c]] | p # ps \<Rightarrow> (c # p) # ps))"

definition parse_pair :: "string \<Rightarrow> string \<times> string" where
  "parse_pair piece =
     (urldecode (takeWhile (\<lambda>c. c \<noteq> CHR ''='') piece),
      urldecode (drop 1 (dropWhile (\<lambda>c. c \<noteq> CHR ''='') piece)))"

definition parse_query :: "string \<Rightarrow> (string \<times> string) list" where
  "parse_query s = map parse_pair (filter (\<lambda>piece. piece \<noteq> []) (split_on (CHR ''&'') s))"

section \<open>Content generation form\<close>

text \<open>
  The form's values and the schema that the resolver checks them against. A string is
  a list of code units of some type \<open>'c\<close>; a number field holds a number or
  \<^verbatim>\<open>NaN\<close> (an emptied numeric input read with \<^verbatim>\<open>valueAsNumber\<close>), or is absent.
\<close>

datatype number = NaN | Num rat

record 'c ContentGenerationFormData =
  brief :: "'c list"
  style_profile_id :: "'c list"
  max_tokens :: "number option"
  temperature :: "number option"
  additional_instructions :: "'c list option"

datatype field = Brief | Style_profile_id | Max_tokens | Temperature

datatype issue_code = Too_small | Too_big | Invalid_type

type_synonym issue = "field \<times> issue_code"

definition string_min :: "field \<Rightarrow> nat \<Rightarrow> 'c list \<Rightarrow> issue list" where
  "string_min f n s = (if length s < n then [(f, Too_small)] else [])"

definition number_range :: "field \<Rightarrow> rat \<Rightarrow> rat \<Rightarrow> number option \<Rightarrow> issue list" where
  "number_range f lo hi v =
     (case v of
        None \<Rightarrow> []
      | Some NaN \<Rightarrow> [(f, Invalid_type)]
      | Some (Num x) \<Rightarrow>
          (if x < lo then [(f, Too_small)] else []) @ (if hi < x then [(f, Too_big)] else []))"

definition contentGenerationSchema :: "'c ContentGenerationFormData \<Rightarrow> issue list" where
  "contentGenerationSchema d =
     string_min Brief 10 (brief d)
     @ string_min Style_profile_id 1 (style_profile_id d)
     @ number_range Max_tokens 100 4000 (max_tokens d)
     @ number_range Temperature 0 2 (temperature d)"

text \<open>
  \<^verbatim>\<open>handleSubmit(onSubmit)\<close>: the resolver runs first; \<^verbatim>\<open>onSubmit\<close>, which sends the
  generation request through the mutation, runs only when the schema raises no issue.
  The result is the issues shown in the form and the bodies of the requests sent;
  \<open>outcomes\<close> are the server's answers to the requests in the order they are sent.
\<close>

definition handleSubmit ::
  "(api_error + 'r) list \<Rightarrow> 'c ContentGenerationFormData
     \<Rightarrow> issue list \<times> 'c ContentGenerationFormData list" where
  "handleSubmit outcomes d =
     (let issues = contentGenerationSchema d
      in if issues = [] then ([], replicate (fst (retryer mutations_retry 0 outcomes)) d)
         else (issues, []))"

section \<open>Sample data\<close>

text \<open>Two organizations, a server error, a validation error, an authentication service
  described by the state of the token and the answer to the current-user request, an
  application that is signed in to the first organization with two cached lists, one
  that is signed out, and a cache of style and content entries.\<close>

definition acme :: Organization where
  "acme = \<lparr>org_id = ''o1'', org_name = ''Acme'', org_slug = ''acme''\<rparr>"

definition globex :: Organization where
  "globex = \<lparr>org_id = ''o2'', org_name = ''Globex'', org_slug = ''globex''\<rparr>"

definition server_error :: api_error where
  "server_error = \<lparr>detail = None, status = Some 500\<rparr>"

definition unprocessable :: api_error where
  "unprocessable = \<lparr>detail = Some ''Invalid credentials'', status = Some 422\<rparr>"

definition service :: "bool \<Rightarrow> bool \<Rightarrow> string promise \<Rightarrow> string authService" where
  "service present expired current =
     \<lparr>login_result = Resolved (''ann'', acme), logout_result = Resolved (),
      isAuthenticated_result = present, isTokenExpired_result = expired,
      getCurrentUser_result = current, getOrganizationData_result = Some acme\<rparr>"

definition signed_in :: "(string, nat) app" where
  "signed_in =
     \<lparr>store = \<lparr>user = Some ''ann'', organization = Some acme, isAuthenticated = True,
               isLoading = False, error = None\<rparr>,
      calls = [],
      queries = [\<lparr>queryKey = useStyles_key ''o1'' (Some []), data = 1,
                   isInvalidated = False\<rparr>,
                 \<lparr>queryKey = useStyles_key ''o2'' (Some []), data = 2,
                   isInvalidated = False\<rparr>]\<rparr>"

definition signed_out :: "(string, nat) app" where
  "signed_out = \<lparr>store = initial_state, calls = [], queries = []\<rparr>"

definition style_cache :: "nat query_cache" where
  "style_cache =
     [\<lparr>queryKey = useStyles_key ''o1'' None, data = 1, isInvalidated = False\<rparr>,
      \<lparr>queryKey = style_detail ''o1'' ''s1'', data = 2, isInvalidated = False\<rparr>,
      \<lparr>queryKey = content_list ''o1'', data = 3, isInvalidated = False\<rparr>]"

section \<open>Facts about the query cache\<close>

lemma invalidateQueries_keys: "map queryKey (invalidateQueries k c) = map queryKey c"
  by (induction c) (simp_all add: invalidateQueries_def)

lemma invalidateQueries_data: "map data (invalidateQueries k c) = map data c"
  by (induction c) (simp_all add: invalidateQueries_def)

lemma invalidateQueries_twice_flags:
  "map isInvalidated (invalidateQueries k2 (invalidateQueries k1 c))
     = map (\<lambda>q. isInvalidated q \<or> prefix k1 (queryKey q) \<or> prefix k2 (queryKey q)) c"
  by (induction c) (simp_all add: invalidateQueries_def partialMatchKey_def)

lemma set_invalidateQueries:
  "set (invalidateQueries f c) =
     (\<lambda>q. if prefix f (queryKey q) then q\<lparr>isInvalidated := True\<rparr> else q) ` set c"
  by (simp add: invalidateQueries_def partialMatchKey_def)

lemma set_removeQueries:
  "set (removeQueries f c) = {q \<in> set c. \<not> prefix f (queryKey q)}"
  by (simp add: removeQueries_def partialMatchKey_def)

lemma removeQueries_keys:
  "map queryKey (removeQueries f c) = filter (\<lambda>k. \<not> prefix f k) (map queryKey c)"
  by (induction c) (simp_all add: removeQueries_def partialMatchKey_def)

text \<open>Keys with the same hash start with the same strings.\<close>

lemma hash_segment_string: "hash_segment x = HS s \<longleftrightarrow> x = S s"
  by (cases x rule: hash_segment.cases) auto

lemma hashKey_prefix:
  "strings_only f \<Longrightarrow> hashKey k' = hashKey k \<Longrightarrow> prefix f k \<Longrightarrow> prefix f k'"
proof (induction f arbitrary: k k')
  case Nil
  show ?case by simp
next
  case (Cons x f)
  from Cons.prems(1) obtain s where x: "x = S s" and f: "strings_only f"
    by (auto simp: strings_only_def split: segment.splits)
  from Cons.prems(3) x obtain k0 where k: "k = S s # k0" and p: "prefix f k0"
    by (cases k) auto
  from Cons.prems(2) k obtain y k0' where k': "k' = y # k0'"
    and y: "hash_segment y = HS s" and h: "hashKey k0' = hashKey k0"
    by (cases k') (auto simp: hashKey_def)
  from y have "y = S s" by (simp add: hash_segment_string)
  moreover from f h p have "prefix f k0'" by (rule Cons.IH)
  ultimately show ?case using x k' by simp
qed

lemma not_fresh_invalidateQueries:
  assumes f: "strings_only f" and p: "prefix f k"
  shows "\<not> fresh (invalidateQueries f c) k"
proof
  assume "fresh (invalidateQueries f c) k"
  then obtain q where q: "q \<in> set c"
    and h: "hashKey (queryKey q) = hashKey k"
    and n: "\<not> isInvalidated (if prefix f (queryKey q) then q\<lparr>isInvalidated := True\<rparr> else q)"
    by (auto simp: fresh_def list_ex_iff set_invalidateQueries split: if_splits)
  from f h p have "prefix f (queryKey q)" by (rule hashKey_prefix)
  with n show False by simp
qed

lemma not_fresh_invalidateQueries_mono:
  "\<not> fresh c k \<Longrightarrow> \<not> fresh (invalidateQueries f c) k"
  by (auto simp: fresh_def list_ex_iff set_invalidateQueries split: if_splits)

lemma not_fresh_removeQueries_mono:
  "\<not> fresh c k \<Longrightarrow> \<not> fresh (removeQueries f c) k"
  by (auto simp: fresh_def list_ex_iff set_removeQueries)

lemma stale_invalidateQueries:
  "prefix f k \<Longrightarrow> k \<in> set (map queryKey c) \<Longrightarrow> stale (invalidateQueries f c) k"
  by (induction c) (auto simp: stale_def invalidateQueries_def partialMatchKey_def)

lemma stale_invalidateQueries_mono:
  "stale c k \<Longrightarrow> stale (invalidateQueries f c) k"
  by (induction c) (auto simp: stale_def invalidateQueries_def partialMatchKey_def)

lemma stale_removeQueries:
  "strings_only f \<Longrightarrow> stale c k \<Longrightarrow> \<not> prefix f k \<Longrightarrow> stale (removeQueries f c) k"
proof -
  assume f: "strings_only f" and s: "stale c k" and n: "\<not> prefix f k"
  from s obtain q where q: "q \<in> set c" "hashKey (queryKey q) = hashKey k" "isInvalidated q"
    by (auto simp: stale_def list_ex_iff)
  have "\<not> prefix f (queryKey q)"
  proof
    assume "prefix f (queryKey q)"
    with f q(2) [symmetric] have "prefix f k" by (rule hashKey_prefix)
    with n show False by simp
  qed
  with q show ?thesis by (auto simp: stale_def list_ex_iff set_removeQueries)
qed

lemma getQuery_removeQueries:
  assumes f: "strings_only f" and p: "prefix f k"
  shows "getQuery (removeQueries f c) k = None"
proof -
  have "hashKey (queryKey q) \<noteq> hashKey k" if "q \<in> set (removeQueries f c)" for q
  proof
    assume "hashKey (queryKey q) = hashKey k"
    with f have "prefix f (queryKey q)" using p by (rule hashKey_prefix)
    with that show False by (simp add: set_removeQueries)
  qed
  then show ?thesis
    by (auto simp: getQuery_def find_None_iff)
qed

lemma getQuery_hash: "getQuery c k = Some q \<Longrightarrow> hashKey (queryKey q) = hashKey k"
  by (auto simp: getQuery_def find_Some_iff)

lemma org_of_key_prefix:
  "org_of_key k = Some b \<longleftrightarrow> prefix [S ''organizations'', S b] k"
  by (cases k rule: org_of_key.cases) auto

lemma org_of_key_hash:
  "hashKey k' = hashKey k \<Longrightarrow> org_of_key k = Some b \<Longrightarrow> org_of_key k' = Some b"
  unfolding org_of_key_prefix by (rule hashKey_prefix) (simp_all add: strings_only_def)

text \<open>\<^verbatim>\<open>invalidateOrganization\<close> leaves no key of the organization with an entry that
  is not invalidated. It is offered to components; no action of the store calls it.\<close>

lemma invalidateOrganization_scoped:
  "org_of_key k = Some orgId \<Longrightarrow> \<not> fresh (invalidateOrganization orgId cache) k"
  unfolding invalidateOrganization_def org_of_key_prefix
  by (rule not_fresh_invalidateQueries) (simp_all add: strings_only_def)

lemmas key_defs = user_profile_def organization_list_def organization_detail_def
  organization_members_def organization_usage_def style_list_def style_detail_def
  style_analysis_def content_list_def content_detail_def content_iterations_def
  useStyles_key_def useContent_key_def

lemmas store_simps = set_store_def call_def Let_def

section \<open>Facts about query strings\<close>

lemma hex_digit_facts:
  assumes "d < 16"
  shows "is_hex (hex_digit d)" and "hex_value (hex_digit d) = d"
    and "hex_digit d \<noteq> CHR ''&''" and "hex_digit d \<noteq> CHR ''=''"
proof -
  from assms have "d = 15 \<or> d = 14 \<or> d = 13 \<or> d = 12 \<or> d = 11 \<or> d = 10 \<or> d = 9
      \<or> d = 8 \<or> d = 7 \<or> d = 6 \<or> d = 5 \<or> d = 4 \<or> d = 3 \<or> d = 2 \<or> d = 1 \<or> d = 0"
    by arith
  then show "is_hex (hex_digit d)" and "hex_value (hex_digit d) = d"
    and "hex_digit d \<noteq> CHR ''&''" and "hex_digit d \<noteq> CHR ''=''"
    by (auto simp: hex_digit_def is_hex_def hex_value_def)
qed

lemma unreserved_plain:
  "unreserved c \<Longrightarrow> c \<noteq> CHR ''%'' \<and> c \<noteq> CHR ''+'' \<and> c \<noteq> CHR ''&'' \<and> c \<noteq> CHR ''=''"
  by (auto simp: unreserved_def)

lemma byte_split: "16 * (of_char c div 16) + of_char c mod 16 = (of_char c :: nat)"
  by simp

lemma urldecode_encode_byte: "urldecode (encode_byte c @ rest) = c # urldecode rest"
proof -
  have d: "(of_char c :: nat) div 16 < 16"
    using nat_of_char_less_256 [of c] by arith
  have m: "(of_char c :: nat) mod 16 < 16" by simp
  have "char_of (16 * ((of_char c :: nat) div 16) + of_char c mod 16) = c"
    by (simp only: byte_split char_of_char)
  then show ?thesis
    using unreserved_plain [of c] hex_digit_facts(1,2) [OF d] hex_digit_facts(1,2) [OF m]
    by (simp add: encode_byte_def)
qed

lemma urldecode_urlencode: "urldecode (urlencode s) = s"
  by (induction s) (simp_all add: urlencode_def urldecode_encode_byte del: urldecode.simps(2))

lemma encode_byte_clean:
  "CHR ''&'' \<notin> set (encode_byte c) \<and> CHR ''='' \<notin> set (encode_byte c)"
proof -
  have d: "(of_char c :: nat) div 16 < 16"
    using nat_of_char_less_256 [of c] by arith
  have m: "(of_char c :: nat) mod 16 < 16" by simp
  show ?thesis
    using unreserved_plain [of c] hex_digit_facts(3,4) [OF d] hex_digit_facts(3,4) [OF m]
    by (auto simp: encode_byte_def)
qed

lemma urlencode_clean:
  "CHR ''&'' \<notin> set (urlencode s) \<and> CHR ''='' \<notin> set (urlencode s)"
  using encode_byte_clean by (induction s) (auto simp: urlencode_def)

lemma split_on_none: "sep \<notin> set a \<Longrightarrow> split_on sep a = [a]"
  by (induction a) auto

lemma split_on_first: "sep \<notin> set a \<Longrightarrow> split_on sep (a @ sep # b) = a # split_on sep b"
  by (induction a) auto

lemma parse_pair_encoded: "parse_pair (urlencode k @ ''='' @ urlencode v) = (k, v)"
proof -
  have k: "\<forall>c \<in> set (urlencode k). c \<noteq> CHR ''=''"
    using urlencode_clean [of k] by auto
  have "takeWhile (\<lambda>c. c \<noteq> CHR ''='') (urlencode k @ CHR ''='' # urlencode v) = urlencode k"
    using k by (simp add: takeWhile_tail)
  moreover have "dropWhile (\<lambda>c. c \<noteq> CHR ''='') (urlencode k @ CHR ''='' # urlencode v)
      = CHR ''='' # urlencode v"
    using k by (simp add: dropWhile_append3)
  ultimately show ?thesis by (simp add: parse_pair_def urldecode_urlencode)
qed

lemma parse_query_toString: "parse_query (toString ps) = ps"
proof (induction ps rule: toString.induct)
  case 1
  show ?case by (simp add: parse_query_def)
next
  case (2 k v)
  have "CHR ''&'' \<notin> set (urlencode k @ ''='' @ urlencode v)"
    using urlencode_clean [of k] urlencode_clean [of v] by simp
  then have "split_on (CHR ''&'') (urlencode k @ ''='' @ urlencode v)
      = [urlencode k @ ''='' @ urlencode v]"
    by (rule split_on_none)
  then show ?case
    using parse_pair_encoded [of k v] by (simp add: parse_query_def)
next
  case (3 k v x xs)
  have "CHR ''&'' \<notin> set (urlencode k @ ''='' @ urlencode v)"
    using urlencode_clean [of k] urlencode_clean [of v] by simp
  then have "split_on (CHR ''&'')
        ((urlencode k @ ''='' @ urlencode v) @ CHR ''&'' # toString (x # xs))
      = (urlencode k @ ''='' @ urlencode v) # split_on (CHR ''&'') (toString (x # xs))"
    by (rule split_on_first)
  then show ?case
    using parse_pair_encoded [of k v] "3.IH" by (simp add: parse_query_def)
qed

lemma toString_empty: "toString ps = [] \<longleftrightarrow> ps = []"
  by (induction ps rule: toString.induct) simp_all

section \<open>The key factory\<close>

text \<open>
  C10 (counterexample). The claim says that only the user-profile key carries no
  organization id. The organization-list key \<^verbatim>\<open>['organizations']\<close> is a second key of
  the factory that carries none.
\<close>

theorem queryKeys_only_profile_counterexample:
  "org_of_key organization_list = None \<and> organization_list \<noteq> user_profile"
  by (simp add: organization_list_def user_profile_def)

text \<open>
  C10 (amended). For every organization id and entity id the detail key strictly extends
  the list key, the analysis and iterations keys strictly extend the detail key (hence
  the list key), every style and content key and every organization detail, members and
  usage key starts with \<^verbatim>\<open>['organizations', organization id]\<close>, and the user-profile
  key and the organization-list key carry no organization id.
\<close>

theorem queryKeys_prefix_invariant:
  "strict_prefix (style_list orgId) (style_detail orgId i)
   \<and> strict_prefix (style_detail orgId i) (style_analysis orgId i)
   \<and> strict_prefix (style_list orgId) (style_analysis orgId i)
   \<and> strict_prefix (content_list orgId) (content_detail orgId i)
   \<and> strict_prefix (content_detail orgId i) (content_iterations orgId i)
   \<and> strict_prefix (content_list orgId) (content_iterations orgId i)
   \<and> strict_prefix (style_list orgId) (useStyles_key orgId sp)
   \<and> strict_prefix (content_list orgId) (useContent_key orgId sp)
   \<and> org_of_key (style_list orgId) = Some orgId
   \<and> org_of_key (style_detail orgId i) = Some orgId
   \<and> org_of_key (style_analysis orgId i) = Some orgId
   \<and> org_of_key (useStyles_key orgId sp) = Some orgId
   \<and> org_of_key (content_list orgId) = Some orgId
   \<and> org_of_key (content_detail orgId i) = Some orgId
   \<and> org_of_key (content_iterations orgId i) = Some orgId
   \<and> org_of_key (useContent_key orgId sp) = Some orgId
   \<and> org_of_key (organization_detail orgId) = Some orgId
   \<and> org_of_key (organization_members orgId) = Some orgId
   \<and> org_of_key (organization_usage orgId) = Some orgId
   \<and> org_of_key user_profile = None
   \<and> org_of_key organization_list = None"
  by (simp add: style_list_def style_detail_def style_analysis_def content_list_def
      content_detail_def content_iterations_def useStyles_key_def useContent_key_def
      organization_detail_def organization_members_def organization_usage_def
      user_profile_def organization_list_def strict_prefix_def)

section \<open>Switching the organization\<close>

text \<open>
  C1 (counterexample). The claim says that \<^verbatim>\<open>setOrganization\<close> invalidates every cache
  entry scoped to the previous organization. With the first organization active and its
  style list cached, switching to the second organization leaves that entry in the
  cache, not invalidated.
\<close>

theorem setOrganization_cache_counterexample:
  "fresh (queries (setOrganization
       \<lparr>org_id = ''o2'', org_name = ''Globex'', org_slug = ''globex''\<rparr>
       \<lparr>store = \<lparr>user = Some ''ann'',
                  organization = Some \<lparr>org_id = ''o1'', org_name = ''Acme'', org_slug = ''acme''\<rparr>,
                  isAuthenticated = True, isLoading = False, error = None\<rparr>,
        calls = [],
        queries = [\<lparr>queryKey = useStyles_key ''o1'' None, data = (1::nat),
                     isInvalidated = False\<rparr>]\<rparr>))
     (useStyles_key ''o1'' None)"
  by (simp add: setOrganization_def store_simps fresh_def)

text \<open>
  C1 (amended). \<^verbatim>\<open>setOrganization\<close> replaces the active organization, hands it to the
  authentication service, and leaves the user, the authenticated flag and the whole
  query cache as they were: nothing is invalidated or removed, and every read finds what
  it found before. For organizations with distinct ids, a subsequent read of a key that
  carries the id which components now take from the store finds only an entry cached
  under a key of the new organization, never one cached under a key of the previous
  organization.
\<close>

theorem setOrganization_switch:
  "organization (store (setOrganization o2 w)) = Some o2
   \<and> active_organization_id (setOrganization o2 w) = org_id o2
   \<and> user (store (setOrganization o2 w)) = user (store w)
   \<and> isAuthenticated (store (setOrganization o2 w)) = isAuthenticated (store w)
   \<and> calls (setOrganization o2 w) = calls w @ [SetOrganizationData o2]
   \<and> queries (setOrganization o2 w) = queries w
   \<and> getQuery (queries (setOrganization o2 w)) k = getQuery (queries w) k
   \<and> (org_id o1 \<noteq> org_id o2
        \<and> org_of_key k = Some (active_organization_id (setOrganization o2 w))
        \<and> getQuery (queries (setOrganization o2 w)) k = Some q
      \<longrightarrow> org_of_key (queryKey q) = Some (org_id o2)
          \<and> org_of_key (queryKey q) \<noteq> Some (org_id o1))"
proof -
  have a: "active_organization_id (setOrganization o2 w) = org_id o2"
    and c: "queries (setOrganization o2 w) = queries w"
    by (simp_all add: setOrganization_def active_organization_id_def store_simps)
  have "org_of_key (queryKey q) = Some (org_id o2)"
    if "org_of_key k = Some (org_id o2)" and "getQuery (queries w) k = Some q"
    using that by (metis getQuery_hash org_of_key_hash)
  with a c show ?thesis
    by (auto simp: setOrganization_def store_simps)
qed

theorem setOrganization_switch_witness:
  "org_id acme \<noteq> org_id globex
   \<and> org_of_key (useStyles_key ''o2'' (Some [(''query'', Undefined)]))
       = Some (active_organization_id (setOrganization globex signed_in))
   \<and> getQuery (queries (setOrganization globex signed_in))
       (useStyles_key ''o2'' (Some [(''query'', Undefined)]))
       = Some \<lparr>queryKey = useStyles_key ''o2'' (Some []), data = 2, isInvalidated = False\<rparr>
   \<and> org_of_key (queryKey
         \<lparr>queryKey = useStyles_key ''o2'' (Some []), data = (2::nat), isInvalidated = False\<rparr>)
       = Some (org_id globex)
   \<and> org_of_key (queryKey
         \<lparr>queryKey = useStyles_key ''o2'' (Some []), data = (2::nat), isInvalidated = False\<rparr>)
       \<noteq> Some (org_id acme)
   \<and> queries (setOrganization globex signed_in) = queries signed_in"
  using setOrganization_switch [where ?o1.0 = acme and ?o2.0 = globex
      and k = "useStyles_key ''o2'' (Some [(''query'', Undefined)])" and w = signed_in
      and q = "\<lparr>queryKey = useStyles_key ''o2'' (Some []), data = (2::nat),
                 isInvalidated = False\<rparr>"]
  by (simp add: setOrganization_def store_simps getQuery_def hashKey_def key_defs acme_def
      globex_def signed_in_def active_organization_id_def List.map_filter_simps)

section \<open>Initialization\<close>

text \<open>
  C2 (counterexample). The claim says that a present, unexpired token makes
  \<^verbatim>\<open>initialize\<close> mark the session authenticated at once, with no request needed to
  reach a terminal state. With such a token, a current-user request that fails ends
  with the session not authenticated, and a request that never settles leaves the
  action unfinished, the store still loading and the session not authenticated.
\<close>

theorem initialize_optimistic_counterexample:
  "isAuthenticated_result (service True False (Rejected server_error))
   \<and> \<not> isTokenExpired_result (service True False (Rejected server_error))
   \<and> snd (initialize (service True False (Rejected server_error)) signed_out) = Some ()
   \<and> \<not> isAuthenticated (store (fst (initialize (service True False (Rejected server_error))
         signed_out)))
   \<and> calls (fst (initialize (service True False (Rejected server_error)) signed_out))
       = [IsAuthenticated, IsTokenExpired, GetCurrentUser, ClearAuthData]
   \<and> isAuthenticated_result (service True False Pending)
   \<and> \<not> isTokenExpired_result (service True False Pending)
   \<and> snd (initialize (service True False Pending) signed_out) = None
   \<and> isLoading (store (fst (initialize (service True False Pending) signed_out)))
   \<and> \<not> isAuthenticated (store (fst (initialize (service True False Pending) signed_out)))"
  by (simp add: initialize_def clear_session_def store_simps initial_state_def service_def
      signed_out_def)

text \<open>
  C2 (amended). When the token is absent or expired, \<^verbatim>\<open>initialize\<close> clears the stored
  authentication data and the session without asking for the current user, and ends.
  When the token is present and unexpired it asks for the current user and stays
  loading, the session as it was, until the request settles: on success it marks the
  session authenticated with that user and the stored organization; on failure it
  clears the stored authentication data and the session. Whenever it ends, the loading
  flag and the error are cleared. The query cache is never touched.
\<close>

theorem initialize_terminal:
  "queries (fst (initialize svc w)) = queries w
   \<and> (snd (initialize svc w) = Some () \<longrightarrow>
      \<not> isLoading (store (fst (initialize svc w)))
      \<and> error (store (fst (initialize svc w))) = None)
   \<and> (isAuthenticated_result svc \<and> \<not> isTokenExpired_result svc
        \<and> getCurrentUser_result svc = Resolved u \<longrightarrow>
      snd (initialize svc w) = Some ()
      \<and> isAuthenticated (store (fst (initialize svc w)))
      \<and> user (store (fst (initialize svc w))) = Some u
      \<and> organization (store (fst (initialize svc w))) = getOrganizationData_result svc
      \<and> calls (fst (initialize svc w))
          = calls w @ [IsAuthenticated, IsTokenExpired, GetCurrentUser, GetOrganizationData])
   \<and> (isAuthenticated_result svc \<and> \<not> isTokenExpired_result svc
        \<and> getCurrentUser_result svc = Rejected err \<longrightarrow>
      snd (initialize svc w) = Some ()
      \<and> store (fst (initialize svc w)) = initial_state
      \<and> calls (fst (initialize svc w))
          = calls w @ [IsAuthenticated, IsTokenExpired, GetCurrentUser, ClearAuthData])
   \<and> (isAuthenticated_result svc \<and> \<not> isTokenExpired_result svc
        \<and> getCurrentUser_result svc = Pending \<longrightarrow>
      snd (initialize svc w) = None
      \<and> store (fst (initialize svc w)) = (store w)\<lparr>isLoading := True\<rparr>
      \<and> calls (fst (initialize svc w))
          = calls w @ [IsAuthenticated, IsTokenExpired, GetCurrentUser])
   \<and> (isAuthenticated_result svc \<and> isTokenExpired_result svc \<longrightarrow>
      snd (initialize svc w) = Some ()
      \<and> store (fst (initialize svc w)) = initial_state
      \<and> calls (fst (initialize svc w))
          = calls w @ [IsAuthenticated, IsTokenExpired, ClearAuthData])
   \<and> (\<not> isAuthenticated_result svc \<longrightarrow>
      snd (initialize svc w) = Some ()
      \<and> store (fst (initialize svc w)) = initial_state
      \<and> calls (fst (initialize svc w)) = calls w @ [IsAuthenticated, ClearAuthData])"
  by (simp add: initialize_def clear_session_def store_simps initial_state_def
      split: promise.splits)

theorem initialize_terminal_witness:
  "isAuthenticated_result (service True False (Resolved ''ann''))
   \<and> \<not> isTokenExpired_result (service True False (Resolved ''ann''))
   \<and> getCurrentUser_result (service True False (Resolved ''ann'')) = Resolved ''ann''
   \<and> snd (initialize (service True False (Resolved ''ann'')) signed_out) = Some ()
   \<and> \<not> isLoading (store (fst (initialize (service True False (Resolved ''ann'')) signed_out)))
   \<and> isAuthenticated (store (fst (initialize (service True False (Resolved ''ann'')) signed_out)))
   \<and> user (store (fst (initialize (service True False (Resolved ''ann'')) signed_out)))
       = Some ''ann''
   \<and> isAuthenticated_result (service True False (Rejected server_error))
   \<and> \<not> isTokenExpired_result (service True False (Rejected server_error))
   \<and> getCurrentUser_result (service True False (Rejected server_error)) = Rejected server_error
   \<and> store (fst (initialize (service True False (Rejected server_error)) signed_in))
       = initial_state
   \<and> isAuthenticated_result (service True False Pending)
   \<and> \<not> isTokenExpired_result (service True False Pending)
   \<and> getCurrentUser_result (service True False Pending) = Pending
   \<and> snd (initialize (service True False Pending) signed_in) = None
   \<and> isLoading (store (fst (initialize (service True False Pending) signed_in)))
   \<and> isAuthenticated_result (service True True (Resolved ''ann''))
   \<and> isTokenExpired_result (service True True (Resolved ''ann''))
   \<and> store (fst (initialize (service True True (Resolved ''ann'')) signed_in)) = initial_state
   \<and> \<not> isAuthenticated_result (service False False (Resolved ''ann''))
   \<and> store (fst (initialize (service False False (Resolved ''ann'')) signed_in)) = initial_state
   \<and> calls (fst (initialize (service False False (Resolved ''ann'')) signed_in))
       = [IsAuthenticated, ClearAuthData]"
  using initialize_terminal [where svc = "service True False (Resolved ''ann'')"
      and u = "''ann''" and w = signed_out]
    initialize_terminal [where svc = "service True False (Rejected server_error)"
      and err = server_error and w = signed_in]
    initialize_terminal [where svc = "service True False Pending" and w = signed_in]
    initialize_terminal [where svc = "service True True (Resolved ''ann'')" and w = signed_in]
    initialize_terminal [where svc = "service False False (Resolved ''ann'')" and w = signed_in]
  by (simp add: service_def signed_in_def)

section \<open>Logout\<close>

text \<open>
  C3 (counterexample). The claim says that \<^verbatim>\<open>logout\<close> clears all cached-entity state.
  After a logout whose server call succeeds, the cached user profile is still in the
  query cache, not invalidated.
\<close>

theorem logout_cache_counterexample:
  "fresh (queries (fst (logout
       \<lparr>login_result = Pending, logout_result = Resolved (),
        isAuthenticated_result = True, isTokenExpired_result = False,
        getCurrentUser_result = Resolved ''ann'', getOrganizationData_result = None\<rparr>
       \<lparr>store = \<lparr>user = Some ''ann'', organization = None, isAuthenticated = True,
                  isLoading = False, error = None\<rparr>,
        calls = [],
        queries = [\<lparr>queryKey = user_profile, data = (1::nat), isInvalidated = False\<rparr>]\<rparr>)))
     user_profile"
  by (simp add: logout_def store_simps fresh_def)

text \<open>
  C3 (amended). Every execution of \<^verbatim>\<open>logout\<close> calls the service once; when that call
  settles, whether it succeeds or fails, the action ends with the store reset to its
  initial state (no user, no organization, not authenticated, not loading, no error).
  The query cache is left as it was.
\<close>

theorem logout_clears_session:
  "(logout_result svc \<noteq> Pending \<longrightarrow>
      snd (logout svc w) = Some () \<and> store (fst (logout svc w)) = initial_state)
   \<and> calls (fst (logout svc w)) = calls w @ [Logout]
   \<and> queries (fst (logout svc w)) = queries w
   \<and> logout (svc\<lparr>logout_result := Rejected err\<rparr>) w
       = logout (svc\<lparr>logout_result := Resolved ()\<rparr>) w"
  by (simp add: logout_def store_simps initial_state_def split: promise.splits)

theorem logout_clears_session_witness:
  "logout_result (service True False Pending) \<noteq> Pending
   \<and> store (fst (logout (service True False Pending) signed_in)) = initial_state
   \<and> logout_result ((service True False Pending)\<lparr>logout_result := Rejected server_error\<rparr>)
       \<noteq> Pending
   \<and> store (fst (logout
       ((service True False Pending)\<lparr>logout_result := Rejected server_error\<rparr>) signed_in))
       = initial_state
   \<and> queries (fst (logout
       ((service True False Pending)\<lparr>logout_result := Rejected server_error\<rparr>) signed_in))
       = queries signed_in"
  using logout_clears_session [where svc = "service True False Pending" and w = signed_in]
    logout_clears_session
      [where svc = "(service True False Pending)\<lparr>logout_result := Rejected server_error\<rparr>"
        and w = signed_in]
  by (simp add: service_def)

section \<open>Login\<close>

text \<open>
  C6. A failed \<^verbatim>\<open>login\<close> rethrows the error and records a non-empty message, and
  leaves the user, the organization, the authenticated flag and the stored token as
  they were; a successful login stores the returned user and organization, marks the
  session authenticated and replaces the stored token by the one issued. Either way
  the service is called once with the credentials, and the query cache is left as it
  was.
\<close>

theorem login_failure_preserves_session:
  "(login_result svc = Rejected err \<longrightarrow>
      snd (login svc email password w) = Some (Inl err)
      \<and> user (store (fst (login svc email password w))) = user (store w)
      \<and> organization (store (fst (login svc email password w))) = organization (store w)
      \<and> isAuthenticated (store (fst (login svc email password w))) = isAuthenticated (store w)
      \<and> isLoading (store (fst (login svc email password w))) = False
      \<and> error (store (fst (login svc email password w)))
          = Some (or_message (detail err) login_error_message)
      \<and> or_message (detail err) login_error_message \<noteq> []
      \<and> authService_login (login_result svc) issued stored = stored)
   \<and> (login_result svc = Resolved (u, org) \<longrightarrow>
      snd (login svc email password w) = Some (Inr ())
      \<and> user (store (fst (login svc email password w))) = Some u
      \<and> organization (store (fst (login svc email password w))) = Some org
      \<and> isAuthenticated (store (fst (login svc email password w)))
      \<and> isLoading (store (fst (login svc email password w))) = False
      \<and> error (store (fst (login svc email password w))) = None
      \<and> authService_login (login_result svc) issued stored = Some issued)
   \<and> calls (fst (login svc email password w)) = calls w @ [Login email password]
   \<and> queries (fst (login svc email password w)) = queries w"
  by (auto simp: login_def store_simps or_message_def login_error_message_def
      authService_login_def split: promise.splits option.splits)

theorem login_failure_preserves_session_witness:
  "login_result ((service True False Pending)\<lparr>login_result := Rejected unprocessable\<rparr>)
     = Rejected unprocessable
   \<and> snd (login ((service True False Pending)\<lparr>login_result := Rejected unprocessable\<rparr>)
        ''bob@example.com'' ''secret'' signed_in) = Some (Inl unprocessable)
   \<and> user (store (fst (login
        ((service True False Pending)\<lparr>login_result := Rejected unprocessable\<rparr>)
        ''bob@example.com'' ''secret'' signed_in))) = Some ''ann''
   \<and> isAuthenticated (store (fst (login
        ((service True False Pending)\<lparr>login_result := Rejected unprocessable\<rparr>)
        ''bob@example.com'' ''secret'' signed_in)))
   \<and> error (store (fst (login
        ((service True False Pending)\<lparr>login_result := Rejected unprocessable\<rparr>)
        ''bob@example.com'' ''secret'' signed_in))) = Some ''Invalid credentials''
   \<and> authService_login
        (login_result ((service True False Pending)\<lparr>login_result := Rejected unprocessable\<rparr>))
        ''token-2'' (Some ''token-1'') = Some ''token-1''
   \<and> login_result (service False False Pending) = Resolved (''ann'', acme)
   \<and> user (store (fst (login (service False False Pending)
        ''ann@example.com'' ''secret'' signed_out))) = Some ''ann''
   \<and> organization (store (fst (login (service False False Pending)
        ''ann@example.com'' ''secret'' signed_out))) = Some acme
   \<and> isAuthenticated (store (fst (login (service False False Pending)
        ''ann@example.com'' ''secret'' signed_out)))
   \<and> authService_login (login_result (service False False Pending)) ''token-2'' None
       = Some ''token-2''"
  using login_failure_preserves_session
      [where svc = "(service True False Pending)\<lparr>login_result := Rejected unprocessable\<rparr>"
        and err = unprocessable and email = "''bob@example.com''" and password = "''secret''"
        and w = signed_in and issued = "''token-2''" and stored = "Some ''token-1''"]
    login_failure_preserves_session
      [where svc = "service False False Pending" and u = "''ann''" and org = acme
        and email = "''ann@example.com''" and password = "''secret''" and w = signed_out
        and issued = "''token-2''" and stored = None]
  by (simp add: service_def signed_in_def unprocessable_def or_message_def
      authService_login_def)

section \<open>Generating content\<close>

text \<open>
  C4 (counterexample). The claim says that a successful generation invalidates the
  content list and the usage statistics of the organization and no other cache entry.
  A cached content detail of the same organization is invalidated as well, because its
  key starts with the content-list key.
\<close>

theorem generate_content_frame_counterexample:
  "useMutation (useGenerateContent ''o1'' None) (Resolved ())
     [\<lparr>queryKey = content_detail ''o1'' ''c1'', data = (1::nat), isInvalidated = False\<rparr>]
   = [\<lparr>queryKey = content_detail ''o1'' ''c1'', data = 1, isInvalidated = True\<rparr>]"
  by (simp add: useMutation_def useGenerateContent_def with_options_def invalidateQueries_def
      partialMatchKey_def content_detail_def content_list_def organization_usage_def)

text \<open>
  C4 (amended). When the caller's options bring no \<^verbatim>\<open>onSuccess\<close> of their own, a
  successful generation keeps every cache entry, its key and its data, and marks as
  invalidated exactly the entries whose key starts with the content-list key or with
  the usage key of the organization (the content details and iterations of that
  organization among them); the flag of every other entry is unchanged. A failed or
  pending generation leaves the cache as it was, and an \<^verbatim>\<open>onSuccess\<close> among the
  options runs in place of the hook's.
\<close>

theorem generate_content_invalidates:
  "map queryKey (useMutation (useGenerateContent orgId None) (Resolved r) cache) = map queryKey cache
   \<and> map data (useMutation (useGenerateContent orgId None) (Resolved r) cache) = map data cache
   \<and> map isInvalidated (useMutation (useGenerateContent orgId None) (Resolved r) cache)
       = map (\<lambda>q. isInvalidated q \<or> prefix (content_list orgId) (queryKey q)
                    \<or> prefix (organization_usage orgId) (queryKey q)) cache
   \<and> useMutation (useGenerateContent orgId None) (Rejected err) cache = cache
   \<and> useMutation (useGenerateContent orgId None) Pending cache = cache
   \<and> useMutation (useGenerateContent orgId (Some f)) (Resolved r) cache = f cache"
  by (simp add: useMutation_def useGenerateContent_def with_options_def
      invalidateQueries_keys invalidateQueries_data invalidateQueries_twice_flags)

section \<open>Style mutations\<close>

text \<open>
  C5 (counterexample). The claim says that deleting a style invalidates its cached
  detail. After a successful deletion the detail entry is gone from the cache: there is
  no invalidated entry under its key.
\<close>

theorem delete_style_detail_counterexample:
  "useMutation (useDeleteStyle ''o1'' ''s1'' None) (Resolved ())
     [\<lparr>queryKey = style_detail ''o1'' ''s1'', data = (1::nat), isInvalidated = False\<rparr>] = []
   \<and> \<not> stale (useMutation (useDeleteStyle ''o1'' ''s1'' None) (Resolved ())
       [\<lparr>queryKey = style_detail ''o1'' ''s1'', data = (1::nat), isInvalidated = False\<rparr>])
       (style_detail ''o1'' ''s1'')"
  by (simp add: useMutation_def useDeleteStyle_def with_options_def invalidateQueries_def
      removeQueries_def partialMatchKey_def style_detail_def style_list_def stale_def)

text \<open>
  C5 (amended). When the caller's options bring no \<^verbatim>\<open>onSuccess\<close> of their own: after
  a successful create, update or delete no key that starts with the style-list key of
  the organization (the list pages and every style detail) has an entry that is not
  invalidated. Create and update keep every entry and mark the cached ones under such
  keys as invalidated. Delete marks the cached list entries as invalidated and removes
  the entries under the detail key of the deleted style outright.
\<close>

theorem style_mutations_invalidate:
  "(prefix (style_list orgId) k \<longrightarrow>
      \<not> fresh (useMutation (useCreateStyle orgId None) (Resolved r) cache) k
      \<and> \<not> fresh (useMutation (useUpdateStyle orgId styleId None) (Resolved r) cache) k
      \<and> \<not> fresh (useMutation (useDeleteStyle orgId styleId None) (Resolved r) cache) k)
   \<and> (prefix (style_list orgId) k \<and> k \<in> set (map queryKey cache) \<longrightarrow>
      stale (useMutation (useCreateStyle orgId None) (Resolved r) cache) k
      \<and> stale (useMutation (useUpdateStyle orgId styleId None) (Resolved r) cache) k)
   \<and> (prefix (style_list orgId) kl \<and> \<not> prefix (style_detail orgId styleId) kl
        \<and> kl \<in> set (map queryKey cache) \<longrightarrow>
      stale (useMutation (useDeleteStyle orgId styleId None) (Resolved r) cache) kl)
   \<and> (prefix (style_detail orgId styleId) kd \<longrightarrow>
      getQuery (useMutation (useDeleteStyle orgId styleId None) (Resolved r) cache) kd = None)
   \<and> map queryKey (useMutation (useCreateStyle orgId None) (Resolved r) cache) = map queryKey cache
   \<and> map queryKey (useMutation (useUpdateStyle orgId styleId None) (Resolved r) cache)
       = map queryKey cache
   \<and> map queryKey (useMutation (useDeleteStyle orgId styleId None) (Resolved r) cache)
       = filter (\<lambda>k. \<not> prefix (style_detail orgId styleId) k) (map queryKey cache)"
proof -
  have l: "strings_only (style_list orgId)" and d: "strings_only (style_detail orgId styleId)"
    by (simp_all add: strings_only_def style_list_def style_detail_def)
  show ?thesis
    unfolding useMutation_def useCreateStyle_def useUpdateStyle_def useDeleteStyle_def
      with_options_def
    by (simp add: not_fresh_invalidateQueries [OF l] not_fresh_invalidateQueries_mono
        not_fresh_removeQueries_mono stale_invalidateQueries stale_invalidateQueries_mono
        stale_removeQueries [OF d] getQuery_removeQueries [OF d] invalidateQueries_keys
        removeQueries_keys del: set_map)
qed

theorem style_mutations_invalidate_witness:
  "prefix (style_list ''o1'') (style_detail ''o1'' ''s1'')
   \<and> style_detail ''o1'' ''s1'' \<in> set (map queryKey style_cache)
   \<and> stale (useMutation (useCreateStyle ''o1'' None) (Resolved ()) style_cache)
       (style_detail ''o1'' ''s1'')
   \<and> stale (useMutation (useUpdateStyle ''o1'' ''s1'' None) (Resolved ())
       style_cache) (style_detail ''o1'' ''s1'')
   \<and> prefix (style_list ''o1'') (useStyles_key ''o1'' None)
   \<and> \<not> prefix (style_detail ''o1'' ''s1'') (useStyles_key ''o1'' None)
   \<and> useStyles_key ''o1'' None \<in> set (map queryKey style_cache)
   \<and> stale (useMutation (useDeleteStyle ''o1'' ''s1'' None) (Resolved ())
       style_cache) (useStyles_key ''o1'' None)
   \<and> prefix (style_detail ''o1'' ''s1'') (style_detail ''o1'' ''s1'')
   \<and> getQuery (useMutation (useDeleteStyle ''o1'' ''s1'' None) (Resolved ())
       style_cache) (style_detail ''o1'' ''s1'') = None
   \<and> \<not> fresh (useMutation (useDeleteStyle ''o1'' ''s1'' None) (Resolved ())
       style_cache) (style_detail ''o1'' ''s1'')"
  using style_mutations_invalidate [where orgId = "''o1''" and styleId = "''s1''"
      and k = "style_detail ''o1'' ''s1''" and kl = "useStyles_key ''o1'' None"
      and kd = "style_detail ''o1'' ''s1''" and cache = style_cache
      and r = "()"]
  by (simp add: style_cache_def key_defs)

section \<open>Retries\<close>

text \<open>
  C7 (counterexample). The claim says that a read is attempted up to 3 times and a
  mutation up to 2 times. A read that keeps failing with status 500 is sent 4 times, and
  such a mutation 3 times.
\<close>

theorem retry_attempts_counterexample:
  "fst (retryer queries_retry 0
      [Inl \<lparr>detail = None, status = Some 500\<rparr>, Inl \<lparr>detail = None, status = Some 500\<rparr>,
       Inl \<lparr>detail = None, status = Some 500\<rparr>,
       (Inl \<lparr>detail = None, status = Some 500\<rparr> :: api_error + unit)]) = 4
   \<and> fst (retryer mutations_retry 0
      [Inl \<lparr>detail = None, status = Some 500\<rparr>, Inl \<lparr>detail = None, status = Some 500\<rparr>,
       (Inl \<lparr>detail = None, status = Some 500\<rparr> :: api_error + unit)]) = 3"
  by (simp add: queries_retry_def mutations_retry_def is_4xx_def)

lemma fst_count: "fst (case p of (n, res) \<Rightarrow> (Suc n, res)) = Suc (fst p)"
  by (cases p) simp

lemma retryer_queries_bound: "fst (retryer queries_retry n outcomes) \<le> Suc (3 - n)"
proof (induction outcomes arbitrary: n)
  case Nil
  show ?case by simp
next
  case (Cons x rest)
  show ?case
  proof (cases x)
    case (Inr r)
    then show ?thesis by simp
  next
    case (Inl err)
    show ?thesis
    proof (cases "queries_retry n err")
      case False
      with Inl show ?thesis by simp
    next
      case True
      then have "n < 3" by (simp add: queries_retry_def split: if_splits)
      moreover have "fst (retryer queries_retry (Suc n) rest) \<le> Suc (3 - Suc n)"
        by (rule Cons.IH)
      ultimately show ?thesis using Inl True by (simp add: fst_count)
    qed
  qed
qed

lemma retryer_mutations_bound: "fst (retryer mutations_retry n outcomes) \<le> Suc (2 - n)"
proof (induction outcomes arbitrary: n)
  case Nil
  show ?case by simp
next
  case (Cons x rest)
  show ?case
  proof (cases x)
    case (Inr r)
    then show ?thesis by simp
  next
    case (Inl err)
    show ?thesis
    proof (cases "mutations_retry n err")
      case False
      with Inl show ?thesis by simp
    next
      case True
      then have "n < 2" by (simp add: mutations_retry_def split: if_splits)
      moreover have "fst (retryer mutations_retry (Suc n) rest) \<le> Suc (2 - Suc n)"
        by (rule Cons.IH)
      ultimately show ?thesis using Inl True by (simp add: fst_count)
    qed
  qed
qed

lemma retryer_sends: "1 \<le> fst (retryer retry n outcomes)"
  by (induction retry n outcomes rule: retryer.induct) (simp_all add: fst_count)

text \<open>
  C7 (amended). Neither callback asks for a retry after a failure whose status is in
  the 4xx class: such a failure ends the request at once. Otherwise a read is retried
  while fewer than 3 failures have been counted and a mutation while fewer than 2, so a
  read is sent at most 4 times (the first request and up to 3 retries) and a mutation
  at most 3 times (the first request and up to 2 retries).
\<close>

theorem retry_policy:
  "queries_retry n err = (\<not> is_4xx err \<and> n < 3)
   \<and> mutations_retry n err = (\<not> is_4xx err \<and> n < 2)
   \<and> fst (retryer queries_retry 0 outcomes) \<le> 4
   \<and> fst (retryer mutations_retry 0 outcomes) \<le> 3
   \<and> (is_4xx err \<longrightarrow>
        retryer queries_retry n (Inl err # rest) = (1, Some (Inl err))
        \<and> retryer mutations_retry n (Inl err # rest) = (1, Some (Inl err)))"
  using retryer_queries_bound [of 0 outcomes] retryer_mutations_bound [of 0 outcomes]
  by (simp add: queries_retry_def mutations_retry_def)

theorem retry_policy_witness:
  "is_4xx unprocessable
   \<and> retryer queries_retry 0 [Inl unprocessable, (Inr () :: api_error + unit)]
       = (1, Some (Inl unprocessable))
   \<and> retryer mutations_retry 0 [Inl unprocessable, (Inr () :: api_error + unit)]
       = (1, Some (Inl unprocessable))
   \<and> \<not> queries_retry 0 unprocessable
   \<and> queries_retry 2 server_error \<and> \<not> queries_retry 3 server_error
   \<and> mutations_retry 1 server_error \<and> \<not> mutations_retry 2 server_error"
  using retry_policy [where err = unprocessable and n = 0
      and rest = "[Inr () :: api_error + unit]"]
    retry_policy [where err = server_error and n = 2]
    retry_policy [where err = server_error and n = 3]
    retry_policy [where err = server_error and n = 1]
  by (simp add: queries_retry_def mutations_retry_def is_4xx_def unprocessable_def
      server_error_def)

section \<open>Validation of the generation form\<close>

text \<open>
  C8. A generation request whose brief has fewer than 10 code units (the empty brief
  among them) or whose style selection is empty is rejected by the schema: the form
  shows at least one issue and no request is sent. (Values that raise no issue are
  submitted, and at least one request is sent.)
\<close>

theorem generation_rejected_locally:
  "(length (brief d) < 10 \<or> style_profile_id d = [] \<longrightarrow>
      fst (handleSubmit outcomes d) \<noteq> [] \<and> snd (handleSubmit outcomes d) = [])
   \<and> (contentGenerationSchema d = [] \<longrightarrow>
      fst (handleSubmit outcomes d) = [] \<and> snd (handleSubmit outcomes d) \<noteq> [])"
  using retryer_sends [of mutations_retry 0 outcomes]
  by (auto simp: handleSubmit_def contentGenerationSchema_def string_min_def Let_def)

theorem generation_rejected_locally_witness:
  "length (brief \<lparr>brief = '''', style_profile_id = '''', max_tokens = Some (Num 2000),
       temperature = Some (Num (7 / 10)), additional_instructions = Some ''''\<rparr>) < 10
   \<and> handleSubmit [Inr () :: api_error + unit]
       \<lparr>brief = '''', style_profile_id = '''', max_tokens = Some (Num 2000),
        temperature = Some (Num (7 / 10)), additional_instructions = Some ''''\<rparr>
     = ([(Brief, Too_small), (Style_profile_id, Too_small)], [])
   \<and> contentGenerationSchema
       \<lparr>brief = ''Write about renewable energy'', style_profile_id = ''s1'',
        max_tokens = Some (Num 2000), temperature = Some (Num (7 / 10)),
        additional_instructions = Some ''''\<rparr> = []
   \<and> snd (handleSubmit [Inr () :: api_error + unit]
       \<lparr>brief = ''Write about renewable energy'', style_profile_id = ''s1'',
        max_tokens = Some (Num 2000), temperature = Some (Num (7 / 10)),
        additional_instructions = Some ''''\<rparr>) \<noteq> []"
  using generation_rejected_locally [where outcomes = "[Inr () :: api_error + unit]"
      and d = "\<lparr>brief = '''', style_profile_id = '''', max_tokens = Some (Num 2000),
        temperature = Some (Num (7 / 10)), additional_instructions = Some ''''\<rparr>"]
    generation_rejected_locally [where outcomes = "[Inr () :: api_error + unit]"
      and d = "\<lparr>brief = ''Write about renewable energy'', style_profile_id = ''s1'',
        max_tokens = Some (Num 2000), temperature = Some (Num (7 / 10)),
        additional_instructions = Some ''''\<rparr>"]
  by (simp add: handleSubmit_def contentGenerationSchema_def string_min_def number_range_def)

section \<open>Query strings of the list hooks\<close>

text \<open>
  C9. Read back by the parser, the query string that a list hook builds holds exactly
  the entries of the search-params object whose value is neither \<^verbatim>\<open>undefined\<close> nor
  \<^verbatim>\<open>null\<close> nor the empty string, each under its name with the string form of its value
  (a string as it is, a boolean as \<^verbatim>\<open>true\<close> or \<^verbatim>\<open>false\<close>, a number in digits), in the
  order of the object. Without a search-params object, or when no entry remains, the
  URL is the bare endpoint; otherwise it is the endpoint, \<^verbatim>\<open>?\<close> and that query string.
\<close>

theorem query_string_fields:
  "parse_query (toString (appendParams num (Some entries)))
     = map (\<lambda>(key, v). (key, String num v))
         (filter (\<lambda>(key, v). v \<noteq> Undefined \<and> v \<noteq> Null \<and> v \<noteq> StrV []) entries)
   \<and> list_url num endpoint None = endpoint
   \<and> list_url num endpoint (Some entries)
       = (if filter (\<lambda>(key, v). v \<noteq> Undefined \<and> v \<noteq> Null \<and> v \<noteq> StrV []) entries = []
          then endpoint
          else endpoint @ ''?'' @ toString (appendParams num (Some entries)))
   \<and> String num (StrV s) = s
   \<and> String num (BoolV True) = ''true''
   \<and> String num (BoolV False) = ''false''
   \<and> String num (NumV (Finite 0)) = ''0''
   \<and> String num (NumV (Finite 12)) = ''12''
   \<and> String num (NumV (Finite (- 3))) = ''-3''
   \<and> String num (NumV NotANumber) = ''NaN''
   \<and> list_url num ''/styles''
        (Some [(''query'', StrV []), (''is_active'', BoolV False), (''created_by'', Undefined),
               (''page'', NumV (Finite 12)), (''sort_by'', Null),
               (''sort_order'', StrV ''a b&c'')])
       = ''/styles?is_active=false&page=12&sort_order=a+b%26c''"
proof -
  have "parse_query (toString (appendParams num (Some entries)))
      = map (\<lambda>(key, v). (key, String num v))
          (filter (\<lambda>(key, v). v \<noteq> Undefined \<and> v \<noteq> Null \<and> v \<noteq> StrV []) entries)"
    by (simp add: parse_query_toString appendParams_def)
  moreover have "list_url num endpoint None = endpoint"
    by (simp add: list_url_def appendParams_def)
  moreover have "list_url num endpoint (Some entries)
      = (if filter (\<lambda>(key, v). v \<noteq> Undefined \<and> v \<noteq> Null \<and> v \<noteq> StrV []) entries = []
         then endpoint
         else endpoint @ ''?'' @ toString (appendParams num (Some entries)))"
    by (simp add: list_url_def toString_empty appendParams_def Let_def)
  moreover have "String num (NumV (Finite 0)) = ''0''" "String num (NumV (Finite 12)) = ''12''"
    "String num (NumV (Finite (- 3))) = ''-3''"
    by (simp_all add: safe_integer_def)
  moreover have "list_url num ''/styles''
        (Some [(''query'', StrV []), (''is_active'', BoolV False), (''created_by'', Undefined),
               (''page'', NumV (Finite 12)), (''sort_by'', Null),
               (''sort_order'', StrV ''a b&c'')])
       = ''/styles?is_active=false&page=12&sort_order=a+b%26c''"
    by (simp add: list_url_def appendParams_def safe_integer_def urlencode_def encode_byte_def
        unreserved_def hex_digit_def)
  ultimately show ?thesis by simp
qed

end
